theory Spec2Isabelle
  imports Main "HOL-Library.Word"
begin

section \<open>JavaScript strings and the built-ins the builder calls\<close>

text \<open>
  A JavaScript string is a finite sequence of UTF-16 code units, so a string of the
  program is a list of 16-bit words here. Every list of this type is a string the
  function can receive, lone surrogates included.
\<close>

type_synonym jsstring = "16 word list"

text \<open>An ASCII literal of the source, one code unit per character.\<close>

definition str :: "string \<Rightarrow> jsstring" where
  "str s = map of_char s"

datatype jserror = TypeError | URIError

text \<open>
  \<open>Number.prototype.toString\<close> on an integer value: its decimal digits, with a minus
  sign in front of a negative number. Every number that the builder prints is an integer
  far below \<open>10^21\<close>, where JavaScript would switch to exponent notation: the layout
  constants and a calendar year.
\<close>

fun digitsOf :: "nat \<Rightarrow> jsstring" where
  "digitsOf n =
     (if n < 10 then [of_nat (48 + n)]
      else digitsOf (n div 10) @ [of_nat (48 + n mod 10)])"

declare digitsOf.simps [simp del]

definition numberToString :: "int \<Rightarrow> jsstring" where
  "numberToString n =
     (if n < 0 then str ''-'' @ digitsOf (nat (- n)) else digitsOf (nat n))"

text \<open>\<open>s.replace(/\<bslash>//g, ':')\<close>: every slash becomes a colon.\<close>

definition replaceSlashes :: "jsstring \<Rightarrow> jsstring" where
  "replaceSlashes s = map (\<lambda>c. if c = 0x2F then 0x3A else c) s"

text \<open>\<open>Array.prototype.join\<close> on an array of strings.\<close>

fun join :: "jsstring \<Rightarrow> jsstring list \<Rightarrow> jsstring" where
  "join sep [] = []"
| "join sep [s] = s"
| "join sep (s # t # ts) = s @ sep @ join sep (t # ts)"

subsection \<open>encodeURIComponent\<close>

text \<open>
  The \<open>Encode\<close> operation of ECMAScript with the unreserved set of
  \<open>encodeURIComponent\<close>: letters, digits and \<open>- _ . ! ~ * ' ( )\<close> are copied, every
  other code point is written as the percent-escaped octets of its UTF-8 form, and an
  unpaired surrogate raises \<open>URIError\<close>.
\<close>

definition uriUnescaped :: "16 word \<Rightarrow> bool" where
  "uriUnescaped c \<longleftrightarrow>
     c \<in> set (str ''ABCDEFGHIJKLMNOPQRSTUVWXYZabcdefghijklmnopqrstuvwxyz0123456789-_.!~*'()'')"

definition isLeadingSurrogate :: "16 word \<Rightarrow> bool" where
  "isLeadingSurrogate c \<longleftrightarrow> 0xD800 \<le> c \<and> c \<le> 0xDBFF"

definition isTrailingSurrogate :: "16 word \<Rightarrow> bool" where
  "isTrailingSurrogate c \<longleftrightarrow> 0xDC00 \<le> c \<and> c \<le> 0xDFFF"

definition surrogatePairToCodePoint :: "16 word \<Rightarrow> 16 word \<Rightarrow> nat" where
  "surrogatePairToCodePoint lead trail =
     (unat lead - 0xD800) * 0x400 + (unat trail - 0xDC00) + 0x10000"

definition utf8 :: "nat \<Rightarrow> nat list" where
  "utf8 cp =
     (if cp < 0x80 then [cp]
      else if cp < 0x800 then [0xC0 + cp div 0x40, 0x80 + cp mod 0x40]
      else if cp < 0x10000 then
        [0xE0 + cp div 0x1000, 0x80 + cp div 0x40 mod 0x40, 0x80 + cp mod 0x40]
      else
        [0xF0 + cp div 0x40000, 0x80 + cp div 0x1000 mod 0x40,
         0x80 + cp div 0x40 mod 0x40, 0x80 + cp mod 0x40])"

definition hexDigit :: "nat \<Rightarrow> 16 word" where
  "hexDigit d = (if d < 10 then of_nat (48 + d) else of_nat (55 + d))"

definition percentOctet :: "nat \<Rightarrow> jsstring" where
  "percentOctet b = [0x25, hexDigit (b div 16), hexDigit (b mod 16)]"

definition percentEncode :: "nat \<Rightarrow> jsstring" where
  "percentEncode cp = concat (map percentOctet (utf8 cp))"

definition andThen :: "jsstring \<Rightarrow> jserror + jsstring \<Rightarrow> jserror + jsstring" where
  "andThen pre r = (case r of Inl e \<Rightarrow> Inl e | Inr s \<Rightarrow> Inr (pre @ s))"

fun encodeURIComponent :: "jsstring \<Rightarrow> jserror + jsstring" where
  "encodeURIComponent [] = Inr []"
| "encodeURIComponent (c # cs) =
     (if uriUnescaped c then andThen [c] (encodeURIComponent cs)
      else if isTrailingSurrogate c then Inl URIError
      else if isLeadingSurrogate c then
        (case cs of
           [] \<Rightarrow> Inl URIError
         | d # ds \<Rightarrow>
             if isTrailingSurrogate d
             then andThen (percentEncode (surrogatePairToCodePoint c d)) (encodeURIComponent ds)
             else Inl URIError)
      else andThen (percentEncode (unat c)) (encodeURIComponent cs))"

subsection \<open>Other string built-ins, used to state properties\<close>

text \<open>\<open>String.prototype.isWellFormed\<close>: the string has no unpaired surrogate.\<close>

fun isWellFormed :: "jsstring \<Rightarrow> bool" where
  "isWellFormed [] = True"
| "isWellFormed (c # cs) =
     (if isTrailingSurrogate c then False
      else if isLeadingSurrogate c then
        (case cs of [] \<Rightarrow> False | d # ds \<Rightarrow> isTrailingSurrogate d \<and> isWellFormed ds)
      else isWellFormed cs)"

text \<open>\<open>String.prototype.startsWith\<close> and \<open>String.prototype.includes\<close>.\<close>

fun startsWith :: "jsstring \<Rightarrow> jsstring \<Rightarrow> bool" where
  "startsWith s [] = True"
| "startsWith [] (c # cs) = False"
| "startsWith (d # ds) (c # cs) = (d = c \<and> startsWith ds cs)"

fun stringIncludes :: "jsstring \<Rightarrow> jsstring \<Rightarrow> bool" where
  "stringIncludes [] t = (t = [])"
| "stringIncludes (c # cs) t = (startsWith (c # cs) t \<or> stringIncludes cs t)"

text \<open>\<open>String.prototype.split\<close> with a separator of one code unit.\<close>

fun splitOn :: "16 word \<Rightarrow> jsstring \<Rightarrow> jsstring list" where
  "splitOn sep [] = [[]]"
| "splitOn sep (c # cs) =
     (if c = sep then [] # splitOn sep cs
      else (case splitOn sep cs of [] \<Rightarrow> [[c]] | t # ts \<Rightarrow> (c # t) # ts))"

section \<open>The collage URL builder\<close>

record Photo =
  publicId :: jsstring

record Position =
  gravity :: jsstring
  x :: int
  y :: int
  width :: int
  height :: int

text \<open>
  What the function reads from its surroundings: the year that
  \<open>new Date().getFullYear()\<close> returns at the call, and whether \<open>window\<close> is defined.
\<close>

record Runtime =
  clockYear :: int
  windowDefined :: bool

text \<open>One \<open>console.log\<close> call: its label and the strings logged after it.\<close>

type_synonym logEntry = "jsstring \<times> jsstring list"

subsection \<open>Layout constants\<close>

definition canvasWidth :: int where "canvasWidth = 1600"
definition canvasHeight :: int where "canvasHeight = 900"
definition textSpace :: int where "textSpace = 120"
definition usableHeight :: int where "usableHeight = canvasHeight - textSpace"
definition margin :: int where "margin = 50"
definition gap :: int where "gap = 40"

text \<open>
  \<open>Math.floor\<close> of a quotient of non-negative integers is integer division; the
  operands here are the constants above.
\<close>

definition availableWidth :: int where
  "availableWidth = canvasWidth - (2 * margin) - (2 * gap)"
definition columnWidth :: int where
  "columnWidth = availableWidth div 3"
definition availableHeight :: int where
  "availableHeight = usableHeight - (2 * margin) - gap"
definition row1Height :: int where
  "row1Height = (availableHeight * 2) div 3"
definition row2Height :: int where
  "row2Height = availableHeight - row1Height"
definition col1Height :: int where
  "col1Height = row1Height + gap + row2Height"
definition col2TopHeight :: int where "col2TopHeight = row1Height"
definition col2BottomHeight :: int where "col2BottomHeight = row2Height"
definition col3TopHeight :: int where "col3TopHeight = row2Height"
definition col3BottomHeight :: int where "col3BottomHeight = row1Height"

definition photoPositions :: "Position list" where
  "photoPositions =
     [\<lparr>gravity = str ''g_north_west'', x = margin, y = margin,
        width = columnWidth, height = col1Height\<rparr>,
      \<lparr>gravity = str ''g_north_west'', x = margin + columnWidth + gap, y = margin,
        width = columnWidth, height = col2TopHeight\<rparr>,
      \<lparr>gravity = str ''g_north_west'', x = margin + columnWidth + gap,
        y = margin + row1Height + gap,
        width = columnWidth, height = col2BottomHeight\<rparr>,
      \<lparr>gravity = str ''g_north_west'', x = margin + (columnWidth + gap) * 2, y = margin,
        width = columnWidth, height = col3TopHeight\<rparr>,
      \<lparr>gravity = str ''g_north_west'', x = margin + (columnWidth + gap) * 2,
        y = margin + row2Height + gap,
        width = columnWidth, height = col3BottomHeight\<rparr>]"

subsection \<open>Photo overlays\<close>

definition cornerRadius :: int where "cornerRadius = 25"
definition borderWidth :: int where "borderWidth = 8"
definition goldColor :: jsstring where "goldColor = str ''rgb:FFD700''"

definition positionParams :: "Position \<Rightarrow> jsstring list" where
  "positionParams position =
     [gravity position]
     @ (if x position > 0 then [str ''x_'' @ numberToString (x position)] else [])
     @ [str ''y_'' @ numberToString (y position)]"

text \<open>The string that one run of the \<open>forEach\<close> callback pushes.\<close>

definition overlay :: "Photo \<Rightarrow> Position \<Rightarrow> jsstring" where
  "overlay photo position =
     (let overlayId = replaceSlashes (publicId photo)
      in str ''l_'' @ overlayId
         @ str ''/c_fill,w_'' @ numberToString (width position)
         @ str '',h_'' @ numberToString (height position)
         @ str ''/r_'' @ numberToString cornerRadius
         @ str '',bo_'' @ numberToString borderWidth
         @ str ''px_solid_'' @ goldColor
         @ str ''/fl_layer_apply,'' @ join (str '','') (positionParams position))"

text \<open>
  \<open>photosToUse.forEach((photo, index) => ...)\<close>, with the array \<open>photoOverlays\<close>
  passed along. Reading \<open>photoPositions[index]\<close> past the end gives \<open>undefined\<close>,
  and \<open>position.gravity\<close> then raises \<open>TypeError\<close>.
\<close>

fun forEachPhoto :: "Photo list \<Rightarrow> nat \<Rightarrow> jsstring list \<Rightarrow> jserror + jsstring list" where
  "forEachPhoto [] index photoOverlays = Inr photoOverlays"
| "forEachPhoto (photo # rest) index photoOverlays =
     (if index < length photoPositions
      then forEachPhoto rest (index + 1)
             (photoOverlays @ [overlay photo (photoPositions ! index)])
      else Inl TypeError)"

subsection \<open>Ribbon, caption and assembly\<close>

definition ribbonHeight :: int where "ribbonHeight = 100"
definition ribbonBottomMargin :: int where "ribbonBottomMargin = 20"
definition ribbonOpacity :: int where "ribbonOpacity = 70"
definition ribbonYFromBottom :: int where "ribbonYFromBottom = ribbonBottomMargin"
definition whitePixelPublicId :: jsstring where
  "whitePixelPublicId = str ''holiday-assets/white-pixel''"
definition whitePixelOverlayId :: jsstring where
  "whitePixelOverlayId = replaceSlashes whitePixelPublicId"

definition whiteRibbon :: jsstring where
  "whiteRibbon =
     str ''l_'' @ whitePixelOverlayId
     @ str ''/c_fill,w_'' @ numberToString canvasWidth
     @ str '',h_'' @ numberToString ribbonHeight
     @ str ''/o_'' @ numberToString ribbonOpacity
     @ str ''/fl_layer_apply,g_south,y_'' @ numberToString ribbonYFromBottom"

text \<open>
  The template literal of the caption. Between the two spaces the source file holds
  the three characters U+00E2, U+20AC, U+201C.
\<close>

definition textContent :: "jsstring \<Rightarrow> int \<Rightarrow> jsstring" where
  "textContent familyName currentYear =
     familyName @ str '' '' @ [0xE2, 0x20AC, 0x201C] @ str '' Holiday ''
     @ numberToString currentYear"

definition textYFromBottom :: int where "textYFromBottom = ribbonBottomMargin"

text \<open>\<open>Math.round\<close> leaves the integer \<open>textYFromBottom\<close> as it is.\<close>

definition textOverlay :: "jsstring \<Rightarrow> jsstring" where
  "textOverlay encodedText =
     str ''l_text:Pacifico_70:'' @ encodedText
     @ str '',co_rgb:000000/fl_layer_apply,g_south,y_'' @ numberToString textYFromBottom"

definition baseUrl :: "jsstring \<Rightarrow> jsstring" where
  "baseUrl cloudName = str ''https://res.cloudinary.com/'' @ cloudName @ str ''/image/upload''"

definition baseTransform :: jsstring where
  "baseTransform = str ''w_1600,h_900,c_fill,q_auto,f_auto''"

definition backgroundId :: jsstring where
  "backgroundId = str ''holiday-assets/collage-bg''"

definition segments :: "jsstring list \<Rightarrow> jsstring \<Rightarrow> jsstring list" where
  "segments photoOverlays encodedText =
     [baseTransform] @ photoOverlays @ [whiteRibbon, textOverlay encodedText, backgroundId]"

definition fullUrl :: "jsstring \<Rightarrow> jsstring list \<Rightarrow> jsstring \<Rightarrow> jsstring" where
  "fullUrl cloudName photoOverlays encodedText =
     baseUrl cloudName @ str ''/'' @ join (str ''/'') (segments photoOverlays encodedText)"

text \<open>
  The function returns a string or raises, and may write two lines to the console:
  the result is the pair of the outcome and the lines logged.
\<close>

definition buildCollageUrl ::
  "Runtime \<Rightarrow> jsstring \<Rightarrow> Photo list \<Rightarrow> jsstring \<Rightarrow> (jserror + jsstring) \<times> logEntry list" where
  "buildCollageUrl rt cloudName photos familyName =
     (if cloudName = [] then (Inr [], [])
      else if length photos \<noteq> 5 then (Inr [], [])
      else
        (case forEachPhoto photos 0 [] of
           Inl e \<Rightarrow> (Inl e, [])
         | Inr photoOverlays \<Rightarrow>
             (let currentYear = clockYear rt
              in case encodeURIComponent (textContent familyName currentYear) of
                   Inl e \<Rightarrow> (Inl e, [])
                 | Inr encodedText \<Rightarrow>
                     (Inr (fullUrl cloudName photoOverlays encodedText),
                      if windowDefined rt
                      then [(str ''Generated Cloudinary URL:'',
                             [fullUrl cloudName photoOverlays encodedText]),
                            (str ''Segments:'', segments photoOverlays encodedText)]
                      else []))))"

section \<open>Properties stated about the layout\<close>

text \<open>A slot lies inside the canvas area left by the margins and the caption reserve.\<close>

definition insideUsableArea :: "Position \<Rightarrow> bool" where
  "insideUsableArea p \<longleftrightarrow>
     50 \<le> x p \<and> 50 \<le> y p \<and> x p + width p \<le> 1600 - 50 \<and> y p + height p \<le> (900 - 120) - 50"

text \<open>Two rectangles share a point of positive area.\<close>

definition overlaps :: "Position \<Rightarrow> Position \<Rightarrow> bool" where
  "overlaps p q \<longleftrightarrow>
     x p < x q + width q \<and> x q < x p + width p \<and>
     y p < y q + height q \<and> y q < y p + height p"

fun pairwiseDisjoint :: "Position list \<Rightarrow> bool" where
  "pairwiseDisjoint [] = True"
| "pairwiseDisjoint (p # ps) = (list_all (\<lambda>q. \<not> overlaps p q) ps \<and> pairwiseDisjoint ps)"

section \<open>Properties stated about the URL\<close>

text \<open>
  The tokens of a transformation string: its slash-separated components, each cut at
  its commas.
\<close>

definition tokens :: "jsstring \<Rightarrow> jsstring list" where
  "tokens s = concat (map (splitOn 0x2C) (splitOn 0x2F s))"

definition layerApplyCount :: "jsstring \<Rightarrow> nat" where
  "layerApplyCount s = length (filter (\<lambda>t. t = str ''fl_layer_apply'') (tokens s))"

text \<open>The slash-separated components whose first token is \<open>fl_layer_apply\<close>.\<close>

definition layerApplyComponents :: "jsstring \<Rightarrow> nat" where
  "layerApplyComponents s =
     length (filter (\<lambda>c. take 1 (splitOn 0x2C c) = [str ''fl_layer_apply''])
               (splitOn 0x2F s))"

text \<open>What follows \<open>l_<id>\<close> in the overlay of each slot, written out.\<close>

definition slotSuffixes :: "jsstring list" where
  "slotSuffixes = map str
     [''/c_fill,w_473,h_680/r_25,bo_8px_solid_rgb:FFD700/fl_layer_apply,g_north_west,x_50,y_50'',
      ''/c_fill,w_473,h_426/r_25,bo_8px_solid_rgb:FFD700/fl_layer_apply,g_north_west,x_563,y_50'',
      ''/c_fill,w_473,h_214/r_25,bo_8px_solid_rgb:FFD700/fl_layer_apply,g_north_west,x_563,y_516'',
      ''/c_fill,w_473,h_214/r_25,bo_8px_solid_rgb:FFD700/fl_layer_apply,g_north_west,x_1076,y_50'',
      ''/c_fill,w_473,h_426/r_25,bo_8px_solid_rgb:FFD700/fl_layer_apply,g_north_west,x_1076,y_304'']"

subsection \<open>A worked call\<close>

text \<open>
  \<open>buildCollageUrl('demo', [a/b, c, d/e/f, g, h], 'Smith')\<close> in the year 2025, outside a
  browser, and the string it returns.
\<close>

definition exampleRuntime :: Runtime where
  "exampleRuntime = \<lparr>clockYear = 2025, windowDefined = False\<rparr>"

definition examplePhotos :: "Photo list" where
  "examplePhotos =
     [\<lparr>publicId = str ''a/b''\<rparr>, \<lparr>publicId = str ''c''\<rparr>, \<lparr>publicId = str ''d/e/f''\<rparr>,
      \<lparr>publicId = str ''g''\<rparr>, \<lparr>publicId = str ''h''\<rparr>]"

definition exampleOverlays :: "jsstring list" where
  "exampleOverlays = map str
     [''l_a:b/c_fill,w_473,h_680/r_25,bo_8px_solid_rgb:FFD700/fl_layer_apply,g_north_west,x_50,y_50'',
      ''l_c/c_fill,w_473,h_426/r_25,bo_8px_solid_rgb:FFD700/fl_layer_apply,g_north_west,x_563,y_50'',
      ''l_d:e:f/c_fill,w_473,h_214/r_25,bo_8px_solid_rgb:FFD700/fl_layer_apply,g_north_west,x_563,y_516'',
      ''l_g/c_fill,w_473,h_214/r_25,bo_8px_solid_rgb:FFD700/fl_layer_apply,g_north_west,x_1076,y_50'',
      ''l_h/c_fill,w_473,h_426/r_25,bo_8px_solid_rgb:FFD700/fl_layer_apply,g_north_west,x_1076,y_304'']"

definition exampleEncodedText :: jsstring where
  "exampleEncodedText = str ''Smith%20%C3%A2%E2%82%AC%E2%80%9C%20Holiday%202025''"

definition exampleUrl :: jsstring where
  "exampleUrl =
     str ''https://res.cloudinary.com/demo/image/upload''
     @ str ''/w_1600,h_900,c_fill,q_auto,f_auto''
     @ str ''/l_a:b/c_fill,w_473,h_680/r_25,bo_8px_solid_rgb:FFD700/fl_layer_apply,g_north_west,x_50,y_50''
     @ str ''/l_c/c_fill,w_473,h_426/r_25,bo_8px_solid_rgb:FFD700/fl_layer_apply,g_north_west,x_563,y_50''
     @ str ''/l_d:e:f/c_fill,w_473,h_214/r_25,bo_8px_solid_rgb:FFD700/fl_layer_apply,g_north_west,x_563,y_516''
     @ str ''/l_g/c_fill,w_473,h_214/r_25,bo_8px_solid_rgb:FFD700/fl_layer_apply,g_north_west,x_1076,y_50''
     @ str ''/l_h/c_fill,w_473,h_426/r_25,bo_8px_solid_rgb:FFD700/fl_layer_apply,g_north_west,x_1076,y_304''
     @ str ''/l_holiday-assets:white-pixel/c_fill,w_1600,h_100/o_70/fl_layer_apply,g_south,y_20''
     @ str ''/l_text:Pacifico_70:Smith%20%C3%A2%E2%82%AC%E2%80%9C%20Holiday%202025,co_rgb:000000/fl_layer_apply,g_south,y_20''
     @ str ''/holiday-assets/collage-bg''"

text \<open>The same photos with a comma in the first identifier.\<close>

definition commaPhotos :: "Photo list" where
  "commaPhotos =
     [\<lparr>publicId = str ''x,fl_layer_apply''\<rparr>, \<lparr>publicId = str ''c''\<rparr>,
      \<lparr>publicId = str ''d/e/f''\<rparr>, \<lparr>publicId = str ''g''\<rparr>, \<lparr>publicId = str ''h''\<rparr>]"

definition commaOverlay :: jsstring where
  "commaOverlay =
     str ''l_x,fl_layer_apply/c_fill,w_473,h_680/r_25,bo_8px_solid_rgb:FFD700/fl_layer_apply,g_north_west,x_50,y_50''"

section \<open>The layout\<close>

lemmas layout_defs =
  canvasWidth_def canvasHeight_def textSpace_def usableHeight_def margin_def gap_def
  availableWidth_def columnWidth_def availableHeight_def row1Height_def row2Height_def
  col1Height_def col2TopHeight_def col2BottomHeight_def col3TopHeight_def col3BottomHeight_def

lemma layout_values:
  "columnWidth = 473" "availableHeight = 640" "row1Height = 426" "row2Height = 214"
  "col1Height = 680" "usableHeight = 780" "margin = 50" "gap = 40"
  by (simp_all add: layout_defs)

lemma photoPositions_values:
  "photoPositions =
     [\<lparr>gravity = str ''g_north_west'', x = 50, y = 50, width = 473, height = 680\<rparr>,
      \<lparr>gravity = str ''g_north_west'', x = 563, y = 50, width = 473, height = 426\<rparr>,
      \<lparr>gravity = str ''g_north_west'', x = 563, y = 516, width = 473, height = 214\<rparr>,
      \<lparr>gravity = str ''g_north_west'', x = 1076, y = 50, width = 473, height = 214\<rparr>,
      \<lparr>gravity = str ''g_north_west'', x = 1076, y = 304, width = 473, height = 426\<rparr>]"
  by (simp add: photoPositions_def layout_defs)

lemma length_photoPositions: "length photoPositions = 5"
  by (simp add: photoPositions_def)

text \<open>
  C6. The five slots have one common width, \<open>floor((1600 - 2*50 - 2*40) / 3)\<close>. The
  row heights are \<open>floor(availableHeight * 2 / 3)\<close> and the rest of \<open>availableHeight\<close>,
  where \<open>availableHeight = (900 - 120) - 2*50 - 40\<close>. Column 1 spans
  \<open>row1Height + 40 + row2Height\<close>, which is the usable height less the two margins.
  The two cells of column 2 and the two cells of column 3 both add up to
  \<open>availableHeight\<close>, and column 3 carries column 2's heights in reverse order.
\<close>

theorem slot_dimensions:
  "map width photoPositions =
     [(1600 - 2 * 50 - 2 * 40) div 3, (1600 - 2 * 50 - 2 * 40) div 3,
      (1600 - 2 * 50 - 2 * 40) div 3, (1600 - 2 * 50 - 2 * 40) div 3,
      (1600 - 2 * 50 - 2 * 40) div 3]
   \<and> availableHeight = (900 - 120) - 2 * 50 - 40
   \<and> row1Height = (availableHeight * 2) div 3
   \<and> row2Height = availableHeight - row1Height
   \<and> height (photoPositions ! 0) = row1Height + 40 + row2Height
   \<and> row1Height + 40 + row2Height = usableHeight - 2 * margin
   \<and> height (photoPositions ! 1) = row1Height
   \<and> height (photoPositions ! 2) = row2Height
   \<and> height (photoPositions ! 1) + height (photoPositions ! 2) = availableHeight
   \<and> height (photoPositions ! 3) + height (photoPositions ! 4) = availableHeight
   \<and> height (photoPositions ! 3) = height (photoPositions ! 2)
   \<and> height (photoPositions ! 4) = height (photoPositions ! 1)"
  by (simp add: photoPositions_def layout_defs)

text \<open>
  C2, as stated, fails at the fifth slot: the bottom cell of column 3 starts at
  \<open>margin + row2Height + gap = 304\<close>, below a top cell of height \<open>row2Height\<close>, and
  not at \<open>margin + row1Height + gap = 516\<close>.
\<close>

theorem slot5_y_counterexample:
  "y (photoPositions ! 4) \<noteq> margin + row1Height + gap"
  by (simp add: photoPositions_def layout_defs)

text \<open>
  C2, amended. Along x every slot starts at the margin plus the widths of the columns
  to its left plus one gap for each of them. Along y a top slot starts at the margin, and
  a bottom slot starts at the margin plus the height of the cell above it in its own
  column plus the gap: \<open>row1Height\<close> above in column 2, \<open>row2Height\<close> above in column 3.
\<close>

theorem slot_offsets:
  "map x photoPositions =
     [margin,
      margin + columnWidth + gap,
      margin + columnWidth + gap,
      margin + columnWidth + gap + columnWidth + gap,
      margin + columnWidth + gap + columnWidth + gap]
   \<and> y (photoPositions ! 0) = margin
   \<and> y (photoPositions ! 1) = margin
   \<and> y (photoPositions ! 3) = margin
   \<and> y (photoPositions ! 2) = margin + height (photoPositions ! 1) + gap
   \<and> height (photoPositions ! 1) = row1Height
   \<and> y (photoPositions ! 4) = margin + height (photoPositions ! 3) + gap
   \<and> height (photoPositions ! 3) = row2Height"
  by (simp add: photoPositions_def layout_defs)

text \<open>
  C9. Every slot lies inside the area inset by the margin, \<open>50 \<le> x\<close>, \<open>50 \<le> y\<close>,
  \<open>x + width \<le> 1600 - 50\<close> and \<open>y + height \<le> (900 - 120) - 50\<close>, and no two of the
  five slots overlap: neighbouring columns are 40 apart, and so are the two cells of
  column 2 and of column 3.
\<close>

theorem slots_inside_and_disjoint:
  "length photoPositions = 5
   \<and> list_all insideUsableArea photoPositions
   \<and> pairwiseDisjoint photoPositions
   \<and> x (photoPositions ! 1) - (x (photoPositions ! 0) + width (photoPositions ! 0)) = 40
   \<and> x (photoPositions ! 3) - (x (photoPositions ! 1) + width (photoPositions ! 1)) = 40
   \<and> y (photoPositions ! 2) - (y (photoPositions ! 1) + height (photoPositions ! 1)) = 40
   \<and> y (photoPositions ! 4) - (y (photoPositions ! 3) + height (photoPositions ! 3)) = 40"
  by (simp add: photoPositions_values insideUsableArea_def overlaps_def)

section \<open>The built-ins\<close>

lemma numberToString_values:
  "numberToString 8 = str ''8''" "numberToString 20 = str ''20''"
  "numberToString 25 = str ''25''" "numberToString 50 = str ''50''"
  "numberToString 70 = str ''70''" "numberToString 100 = str ''100''"
  "numberToString 214 = str ''214''" "numberToString 304 = str ''304''"
  "numberToString 426 = str ''426''" "numberToString 473 = str ''473''"
  "numberToString 516 = str ''516''" "numberToString 563 = str ''563''"
  "numberToString 680 = str ''680''" "numberToString 1076 = str ''1076''"
  "numberToString 1600 = str ''1600''" "numberToString 2025 = str ''2025''"
  by (simp_all add: numberToString_def digitsOf.simps str_def)

lemmas encode_defs =
  uriUnescaped_def isTrailingSurrogate_def isLeadingSurrogate_def andThen_def
  percentEncode_def utf8_def percentOctet_def hexDigit_def surrogatePairToCodePoint_def

lemma ascii_not_surrogate:
  "(c :: 16 word) < 0x80 \<Longrightarrow> \<not> isTrailingSurrogate c \<and> \<not> isLeadingSurrogate c"
  by (auto simp: isTrailingSurrogate_def isLeadingSurrogate_def word_less_nat_alt word_le_nat_alt)

lemma uriUnescaped_ascii: "uriUnescaped c \<Longrightarrow> c < 0x80"
  by (auto simp: uriUnescaped_def str_def)

lemma uriUnescaped_not_surrogate:
  "uriUnescaped c \<Longrightarrow> \<not> isTrailingSurrogate c \<and> \<not> isLeadingSurrogate c"
  by (rule ascii_not_surrogate) (rule uriUnescaped_ascii)

lemma andThen_Inr_iff: "(\<exists>s. andThen pre r = Inr s) \<longleftrightarrow> (\<exists>s. r = Inr s)"
  by (cases r) (simp_all add: andThen_def)

lemma andThen_Inl_iff: "andThen pre r = Inl e \<longleftrightarrow> r = Inl e"
  by (cases r) (simp_all add: andThen_def)

text \<open>The only error that \<open>encodeURIComponent\<close> raises is \<open>URIError\<close>.\<close>

lemma encodeURIComponent_error: "encodeURIComponent s = Inl e \<Longrightarrow> e = URIError"
  by (induction s rule: encodeURIComponent.induct)
     (auto simp: andThen_Inl_iff split: if_splits list.splits)

text \<open>It returns exactly on the well-formed strings.\<close>

lemma encodeURIComponent_wellFormed:
  "(\<exists>t. encodeURIComponent s = Inr t) \<longleftrightarrow> isWellFormed s"
proof (induction s rule: encodeURIComponent.induct)
  case 1
  show ?case by simp
next
  case (2 c cs)
  show ?case
  proof (cases "uriUnescaped c")
    case True
    with 2 uriUnescaped_not_surrogate [OF True] show ?thesis
      by (simp add: andThen_Inr_iff)
  next
    case False
    note nu = this
    show ?thesis
    proof (cases "isTrailingSurrogate c")
      case True
      with nu show ?thesis by simp
    next
      case False
      note nt = this
      show ?thesis
      proof (cases "isLeadingSurrogate c")
        case True
        with nu nt 2 show ?thesis
          by (cases cs) (simp_all add: andThen_Inr_iff)
      next
        case False
        with nu nt 2 show ?thesis
          by (simp add: andThen_Inr_iff)
      qed
    qed
  qed
qed

lemma encodeURIComponent_malformed:
  "\<not> isWellFormed s \<Longrightarrow> encodeURIComponent s = Inl URIError"
proof -
  assume "\<not> isWellFormed s"
  then have "\<not> (\<exists>t. encodeURIComponent s = Inr t)"
    by (simp add: encodeURIComponent_wellFormed)
  then obtain e where "encodeURIComponent s = Inl e"
    by (cases "encodeURIComponent s") auto
  then show ?thesis
    by (simp add: encodeURIComponent_error)
qed

lemma isWellFormed_append:
  "b \<noteq> [] \<Longrightarrow> \<not> isTrailingSurrogate (hd b) \<Longrightarrow>
   isWellFormed (a @ b) \<longleftrightarrow> isWellFormed a \<and> isWellFormed b"
proof (induction a rule: isWellFormed.induct)
  case 1
  then show ?case by simp
next
  case (2 c cs)
  show ?case
  proof (cases "isTrailingSurrogate c")
    case True
    then show ?thesis by simp
  next
    case False
    note nt = this
    show ?thesis
    proof (cases "isLeadingSurrogate c")
      case True
      show ?thesis
      proof (cases cs)
        case Nil
        with True nt 2 show ?thesis by (cases b) simp_all
      next
        case (Cons d ds)
        with True nt 2 show ?thesis by auto
      qed
    next
      case False
      with nt 2 show ?thesis by simp
    qed
  qed
qed

lemma isWellFormed_ascii:
  "list_all (\<lambda>c. c < 0x80) s \<Longrightarrow> isWellFormed s"
  by (induction s) (auto dest: ascii_not_surrogate)

lemma digit_ascii: "n < 10 \<Longrightarrow> (of_nat (48 + n) :: 16 word) < 0x80"
  by (simp add: word_less_nat_alt unat_of_nat del: of_nat_add)

lemma digitsOf_ascii: "list_all (\<lambda>c. c < 0x80) (digitsOf n)"
proof (induction n rule: digitsOf.induct)
  case (1 n)
  show ?case
  proof (cases "n < 10")
    case True
    then show ?thesis
      by (subst digitsOf.simps) (simp add: digit_ascii del: of_nat_add)
  next
    case False
    have "n mod 10 < 10" by simp
    with False 1 show ?thesis
      by (subst digitsOf.simps) (simp add: digit_ascii del: of_nat_add)
  qed
qed

lemma numberToString_ascii: "list_all (\<lambda>c. c < 0x80) (numberToString n)"
  by (simp add: numberToString_def digitsOf_ascii str_def)

lemma splitOn_absent: "sep \<notin> set a \<Longrightarrow> splitOn sep a = [a]"
  by (induction a) auto

lemma splitOn_first: "sep \<notin> set a \<Longrightarrow> splitOn sep (a @ sep # b) = a # splitOn sep b"
  by (induction a) auto

section \<open>The builder on five photos\<close>

lemma forEachPhoto_acc:
  "index + length photos \<le> length photoPositions \<Longrightarrow>
   forEachPhoto photos index acc =
     Inr (acc @ map (\<lambda>(photo, position). overlay photo position)
                  (zip photos (drop index photoPositions)))"
proof (induction photos arbitrary: index acc)
  case Nil
  then show ?case by simp
next
  case (Cons photo rest)
  then have lt: "index < length photoPositions" by simp
  then have d: "drop index photoPositions =
      photoPositions ! index # drop (Suc index) photoPositions"
    by (simp add: Cons_nth_drop_Suc)
  from Cons.prems have "Suc index + length rest \<le> length photoPositions" by simp
  from Cons.IH [OF this] lt d show ?case by simp
qed

lemma list5:
  assumes "length xs = 5"
  shows "xs = [xs ! 0, xs ! 1, xs ! 2, xs ! 3, xs ! 4]"
proof -
  from assms obtain a b c d e where "xs = [a, b, c, d, e]"
    by (auto simp: length_Suc_conv eval_nat_numeral)
  then show ?thesis by simp
qed

text \<open>
  On five photos the loop never reads past the end of \<open>photoPositions\<close>: it returns
  the five overlays, photo \<open>i\<close> on slot \<open>i\<close>.
\<close>

lemma forEachPhoto_five:
  assumes "length photos = 5"
  shows "forEachPhoto photos 0 [] =
     Inr [overlay (photos ! 0) (photoPositions ! 0), overlay (photos ! 1) (photoPositions ! 1),
          overlay (photos ! 2) (photoPositions ! 2), overlay (photos ! 3) (photoPositions ! 3),
          overlay (photos ! 4) (photoPositions ! 4)]"
proof -
  let ?f = "\<lambda>(photo, position). overlay photo position"
  have a: "photos = [photos ! 0, photos ! 1, photos ! 2, photos ! 3, photos ! 4]"
    using assms by (rule list5)
  have b: "photoPositions = [photoPositions ! 0, photoPositions ! 1, photoPositions ! 2,
      photoPositions ! 3, photoPositions ! 4]"
    using length_photoPositions by (rule list5)
  have "forEachPhoto photos 0 [] = Inr (map ?f (zip photos photoPositions))"
    using forEachPhoto_acc [of 0 photos "[]"] assms length_photoPositions by simp
  also have "map ?f (zip photos photoPositions) =
     [overlay (photos ! 0) (photoPositions ! 0), overlay (photos ! 1) (photoPositions ! 1),
      overlay (photos ! 2) (photoPositions ! 2), overlay (photos ! 3) (photoPositions ! 3),
      overlay (photos ! 4) (photoPositions ! 4)]"
    by (subst a, subst b) simp
  finally show ?thesis .
qed

lemma buildCollageUrl_valid:
  assumes "cloudName \<noteq> []" and "length photos = 5"
  shows "fst (buildCollageUrl rt cloudName photos familyName) =
     (case encodeURIComponent (textContent familyName (clockYear rt)) of
        Inl e \<Rightarrow> Inl e
      | Inr encodedText \<Rightarrow>
          Inr (fullUrl cloudName
                 [overlay (photos ! 0) (photoPositions ! 0), overlay (photos ! 1) (photoPositions ! 1),
                  overlay (photos ! 2) (photoPositions ! 2), overlay (photos ! 3) (photoPositions ! 3),
                  overlay (photos ! 4) (photoPositions ! 4)]
                 encodedText))"
  using assms
  by (simp add: buildCollageUrl_def forEachPhoto_five split: sum.split)

lemma buildCollageUrl_returns:
  assumes "cloudName \<noteq> []" and "length photos = 5"
    and "fst (buildCollageUrl rt cloudName photos familyName) = Inr url"
  shows "\<exists>encodedText.
     encodeURIComponent (textContent familyName (clockYear rt)) = Inr encodedText \<and>
     url = fullUrl cloudName
             [overlay (photos ! 0) (photoPositions ! 0), overlay (photos ! 1) (photoPositions ! 1),
              overlay (photos ! 2) (photoPositions ! 2), overlay (photos ! 3) (photoPositions ! 3),
              overlay (photos ! 4) (photoPositions ! 4)]
             encodedText"
  using assms(3) buildCollageUrl_valid [OF assms(1,2), of rt familyName]
  by (cases "encodeURIComponent (textContent familyName (clockYear rt))") auto

lemma textContent_wellFormed:
  "isWellFormed (textContent familyName currentYear) \<longleftrightarrow> isWellFormed familyName"
proof -
  let ?b = "str '' '' @ [0xE2, 0x20AC, 0x201C] @ str '' Holiday '' @ numberToString currentYear"
  have ne: "?b \<noteq> []" by (simp add: str_def)
  have hd: "\<not> isTrailingSurrogate (hd ?b)" by (simp add: str_def isTrailingSurrogate_def)
  have "isWellFormed (numberToString currentYear)"
    by (rule isWellFormed_ascii) (rule numberToString_ascii)
  then have wf: "isWellFormed ?b"
    by (simp add: str_def isTrailingSurrogate_def isLeadingSurrogate_def)
  have "textContent familyName currentYear = familyName @ ?b"
    by (simp add: textContent_def)
  with isWellFormed_append [OF ne hd, of familyName] wf show ?thesis by simp
qed

lemma fullUrl_nonempty: "fullUrl cloudName photoOverlays encodedText \<noteq> []"
  by (simp add: fullUrl_def baseUrl_def str_def)

subsection \<open>The strings of the template\<close>

lemma whiteRibbon_value:
  "whiteRibbon =
     str ''l_holiday-assets:white-pixel/c_fill,w_1600,h_100/o_70/fl_layer_apply,g_south,y_20''"
  by (simp add: whiteRibbon_def whitePixelOverlayId_def whitePixelPublicId_def replaceSlashes_def
      canvasWidth_def ribbonHeight_def ribbonOpacity_def ribbonYFromBottom_def
      ribbonBottomMargin_def numberToString_values)
     (simp add: str_def)

lemma textOverlay_value:
  "textOverlay encodedText =
     str ''l_text:Pacifico_70:'' @ encodedText @ str '',co_rgb:000000/fl_layer_apply,g_south,y_20''"
  by (simp add: textOverlay_def textYFromBottom_def ribbonBottomMargin_def numberToString_values)
     (simp add: str_def)

lemma overlay_template:
  "overlay photo position =
     str ''l_'' @ replaceSlashes (publicId photo)
     @ str ''/c_fill,w_'' @ numberToString (width position)
     @ str '',h_'' @ numberToString (height position)
     @ str ''/r_25,bo_8px_solid_rgb:FFD700/fl_layer_apply,''
     @ join (str '','') (positionParams position)"
  by (simp add: overlay_def cornerRadius_def borderWidth_def goldColor_def
      numberToString_values str_def)

lemma five_cases: "i < (5::nat) \<Longrightarrow> i = 0 \<or> i = 1 \<or> i = 2 \<or> i = 3 \<or> i = 4"
  by arith

lemma positionParams_slot:
  "i < 5 \<Longrightarrow>
   0 < x (photoPositions ! i) \<and>
   positionParams (photoPositions ! i) =
     [str ''g_north_west'', str ''x_'' @ numberToString (x (photoPositions ! i)),
      str ''y_'' @ numberToString (y (photoPositions ! i))]"
  by (drule five_cases) (auto simp: photoPositions_values positionParams_def)

lemma overlay_slot:
  "i < 5 \<Longrightarrow>
   overlay photo (photoPositions ! i) =
     str ''l_'' @ replaceSlashes (publicId photo) @ slotSuffixes ! i"
  apply (drule five_cases)
  apply (simp only: overlay_template)
  apply (elim disjE)
      apply (simp_all add: photoPositions_values positionParams_def numberToString_values
        slotSuffixes_def)
      apply (simp_all add: str_def)
  done

subsection \<open>The worked call\<close>

lemma example_encodedText:
  "encodeURIComponent (textContent (str ''Smith'') 2025) = Inr exampleEncodedText"
  by (simp add: textContent_def numberToString_values exampleEncodedText_def)
     (simp add: encode_defs str_def)

lemma example_overlays:
  "[overlay (examplePhotos ! 0) (photoPositions ! 0), overlay (examplePhotos ! 1) (photoPositions ! 1),
    overlay (examplePhotos ! 2) (photoPositions ! 2), overlay (examplePhotos ! 3) (photoPositions ! 3),
    overlay (examplePhotos ! 4) (photoPositions ! 4)] = exampleOverlays"
  by (simp add: overlay_slot slotSuffixes_def examplePhotos_def exampleOverlays_def
      replaceSlashes_def)
     (simp add: str_def)

lemma example_fullUrl:
  "fullUrl (str ''demo'') exampleOverlays exampleEncodedText = exampleUrl"
  by (simp add: fullUrl_def segments_def baseUrl_def baseTransform_def backgroundId_def
      whiteRibbon_value textOverlay_value exampleOverlays_def exampleEncodedText_def
      exampleUrl_def)
     (simp add: str_def)

lemma example_valid: "str ''demo'' \<noteq> []" "length examplePhotos = 5"
  by (simp_all add: str_def examplePhotos_def)

lemma example_run:
  "fst (buildCollageUrl exampleRuntime (str ''demo'') examplePhotos (str ''Smith'')) =
     Inr exampleUrl"
  unfolding buildCollageUrl_valid [OF example_valid] example_overlays
  by (simp add: exampleRuntime_def example_encodedText example_fullUrl)

section \<open>Outcomes of a call\<close>

text \<open>
  C1, as stated, fails: a label is any string, and on a label with an unpaired
  surrogate \<open>encodeURIComponent\<close> raises \<open>URIError\<close>, so the call with a configured
  account and five photos neither returns a URL nor returns the empty string.
\<close>

theorem lone_surrogate_label_counterexample:
  "fst (buildCollageUrl exampleRuntime (str ''demo'') examplePhotos [0xD800]) = Inl URIError"
  unfolding buildCollageUrl_valid [OF example_valid]
  by (simp add: textContent_def encode_defs str_def)

text \<open>
  C1, amended. The function returns the empty string exactly when the account is empty
  or the number of photos is not 5. On every other input it returns a non-empty URL
  when the label is a well-formed UTF-16 string, and raises \<open>URIError\<close> when the label
  holds an unpaired surrogate.
\<close>

theorem buildCollageUrl_outcomes:
  "(fst (buildCollageUrl rt cloudName photos familyName) = Inr []
      \<longleftrightarrow> cloudName = [] \<or> length photos \<noteq> 5)
   \<and> (cloudName \<noteq> [] \<and> length photos = 5 \<and> isWellFormed familyName
        \<longrightarrow> (\<exists>url. fst (buildCollageUrl rt cloudName photos familyName) = Inr url \<and> url \<noteq> []))
   \<and> (cloudName \<noteq> [] \<and> length photos = 5 \<and> \<not> isWellFormed familyName
        \<longrightarrow> fst (buildCollageUrl rt cloudName photos familyName) = Inl URIError)"
proof (cases "cloudName \<noteq> [] \<and> length photos = 5")
  case False
  then have "fst (buildCollageUrl rt cloudName photos familyName) = Inr []"
    by (auto simp: buildCollageUrl_def)
  with False show ?thesis by auto
next
  case True
  then have v: "cloudName \<noteq> []" "length photos = 5" by simp_all
  note r = buildCollageUrl_valid [OF v, of rt familyName]
  show ?thesis
  proof (cases "isWellFormed familyName")
    case True
    then have "isWellFormed (textContent familyName (clockYear rt))"
      by (simp add: textContent_wellFormed)
    then obtain t where "encodeURIComponent (textContent familyName (clockYear rt)) = Inr t"
      using encodeURIComponent_wellFormed by blast
    with r v True show ?thesis
      by (simp add: fullUrl_nonempty)
  next
    case False
    then have "\<not> isWellFormed (textContent familyName (clockYear rt))"
      by (simp add: textContent_wellFormed)
    then have "encodeURIComponent (textContent familyName (clockYear rt)) = Inl URIError"
      by (rule encodeURIComponent_malformed)
    with r v False show ?thesis by simp
  qed
qed

theorem buildCollageUrl_outcomes_witness:
  "(str ''demo'' \<noteq> [] \<and> length examplePhotos = 5 \<and> isWellFormed (str ''Smith''))
   \<and> (\<exists>url. fst (buildCollageUrl exampleRuntime (str ''demo'') examplePhotos (str ''Smith''))
          = Inr url \<and> url \<noteq> [])
   \<and> \<not> isWellFormed [0xD800]
   \<and> fst (buildCollageUrl exampleRuntime (str ''demo'') examplePhotos [0xD800]) = Inl URIError
   \<and> fst (buildCollageUrl exampleRuntime [] examplePhotos (str ''Smith'')) = Inr []
   \<and> fst (buildCollageUrl exampleRuntime (str ''demo'') (tl examplePhotos) (str ''Smith''))
        = Inr []"
proof -
  have a: "str ''demo'' \<noteq> [] \<and> length examplePhotos = 5 \<and> isWellFormed (str ''Smith'')"
    by (simp add: example_valid) (simp add: str_def isTrailingSurrogate_def isLeadingSurrogate_def)
  have b: "str ''demo'' \<noteq> [] \<and> length examplePhotos = 5 \<and> \<not> isWellFormed [0xD800]"
    by (simp add: example_valid) (simp add: isTrailingSurrogate_def isLeadingSurrogate_def)
  have c: "length (tl examplePhotos) \<noteq> 5"
    by (simp add: examplePhotos_def)
  from a b c
    buildCollageUrl_outcomes [of exampleRuntime "str ''demo''" examplePhotos "str ''Smith''"]
    buildCollageUrl_outcomes [of exampleRuntime "str ''demo''" examplePhotos "[0xD800]"]
    buildCollageUrl_outcomes [of exampleRuntime "[]" examplePhotos "str ''Smith''"]
    buildCollageUrl_outcomes [of exampleRuntime "str ''demo''" "tl examplePhotos" "str ''Smith''"]
  show ?thesis by blast
qed

section \<open>Assembly of the URL\<close>

text \<open>
  C4. On a non-empty account and five photos, the URL returned is
  \<open>https://res.cloudinary.com/<account>/image/upload\<close>, a slash, and then, joined by
  slashes in this order: the base transform, the overlay of photo 1 on slot 1 up to the
  overlay of photo 5 on slot 5, the ribbon, the text overlay and the background identifier.
\<close>

theorem url_assembly_order:
  assumes "cloudName \<noteq> []" and "length photos = 5"
    and "fst (buildCollageUrl rt cloudName photos familyName) = Inr url"
  shows "\<exists>encodedText.
     encodeURIComponent (textContent familyName (clockYear rt)) = Inr encodedText \<and>
     url = str ''https://res.cloudinary.com/'' @ cloudName @ str ''/image/upload'' @ str ''/''
           @ join (str ''/'')
               [baseTransform,
                overlay (photos ! 0) (photoPositions ! 0),
                overlay (photos ! 1) (photoPositions ! 1),
                overlay (photos ! 2) (photoPositions ! 2),
                overlay (photos ! 3) (photoPositions ! 3),
                overlay (photos ! 4) (photoPositions ! 4),
                whiteRibbon,
                textOverlay encodedText,
                backgroundId]"
proof -
  from buildCollageUrl_returns [OF assms] obtain encodedText where
    e: "encodeURIComponent (textContent familyName (clockYear rt)) = Inr encodedText"
    and u: "url = fullUrl cloudName
             [overlay (photos ! 0) (photoPositions ! 0), overlay (photos ! 1) (photoPositions ! 1),
              overlay (photos ! 2) (photoPositions ! 2), overlay (photos ! 3) (photoPositions ! 3),
              overlay (photos ! 4) (photoPositions ! 4)]
             encodedText"
    by blast
  from u have "url = str ''https://res.cloudinary.com/'' @ cloudName @ str ''/image/upload'' @ str ''/''
           @ join (str ''/'')
               [baseTransform,
                overlay (photos ! 0) (photoPositions ! 0),
                overlay (photos ! 1) (photoPositions ! 1),
                overlay (photos ! 2) (photoPositions ! 2),
                overlay (photos ! 3) (photoPositions ! 3),
                overlay (photos ! 4) (photoPositions ! 4),
                whiteRibbon,
                textOverlay encodedText,
                backgroundId]"
    by (simp only: fullUrl_def segments_def baseUrl_def append.simps append_assoc)
  with e show ?thesis by blast
qed

theorem url_assembly_order_witness:
  "str ''demo'' \<noteq> [] \<and> length examplePhotos = 5
   \<and> fst (buildCollageUrl exampleRuntime (str ''demo'') examplePhotos (str ''Smith''))
        = Inr exampleUrl
   \<and> (\<exists>encodedText.
        encodeURIComponent (textContent (str ''Smith'') (clockYear exampleRuntime))
          = Inr encodedText \<and>
        exampleUrl =
          str ''https://res.cloudinary.com/'' @ str ''demo'' @ str ''/image/upload'' @ str ''/''
          @ join (str ''/'')
              [baseTransform,
               overlay (examplePhotos ! 0) (photoPositions ! 0),
               overlay (examplePhotos ! 1) (photoPositions ! 1),
               overlay (examplePhotos ! 2) (photoPositions ! 2),
               overlay (examplePhotos ! 3) (photoPositions ! 3),
               overlay (examplePhotos ! 4) (photoPositions ! 4),
               whiteRibbon,
               textOverlay encodedText,
               backgroundId])"
  using url_assembly_order [OF example_valid example_run] example_valid example_run
  by blast

text \<open>
  C7. On a non-empty account and five photos, the URL returned ends with the ribbon,
  the text overlay and the background. The ribbon is the white-pixel image,
  \<open>c_fill\<close> at the canvas width 1600 and height 100, \<open>o_70\<close>, applied with \<open>g_south\<close>
  and \<open>y_20\<close>; the text overlay is applied with the same \<open>g_south\<close> and \<open>y_20\<close>.
\<close>

theorem ribbon_and_text_segments:
  assumes "cloudName \<noteq> []" and "length photos = 5"
    and "fst (buildCollageUrl rt cloudName photos familyName) = Inr url"
  shows "\<exists>encodedText pre.
     encodeURIComponent (textContent familyName (clockYear rt)) = Inr encodedText \<and>
     url = pre
       @ str ''/l_holiday-assets:white-pixel/c_fill,w_1600,h_100/o_70/fl_layer_apply,g_south,y_20''
       @ str ''/l_text:Pacifico_70:'' @ encodedText
       @ str '',co_rgb:000000/fl_layer_apply,g_south,y_20''
       @ str ''/holiday-assets/collage-bg''
     \<and> numberToString canvasWidth = str ''1600''
     \<and> numberToString ribbonHeight = str ''100''"
proof -
  from buildCollageUrl_returns [OF assms] obtain encodedText where
    e: "encodeURIComponent (textContent familyName (clockYear rt)) = Inr encodedText"
    and u: "url = fullUrl cloudName
             [overlay (photos ! 0) (photoPositions ! 0), overlay (photos ! 1) (photoPositions ! 1),
              overlay (photos ! 2) (photoPositions ! 2), overlay (photos ! 3) (photoPositions ! 3),
              overlay (photos ! 4) (photoPositions ! 4)]
             encodedText"
    by blast
  let ?pre = "baseUrl cloudName @ str ''/'' @ baseTransform
     @ str ''/'' @ overlay (photos ! 0) (photoPositions ! 0)
     @ str ''/'' @ overlay (photos ! 1) (photoPositions ! 1)
     @ str ''/'' @ overlay (photos ! 2) (photoPositions ! 2)
     @ str ''/'' @ overlay (photos ! 3) (photoPositions ! 3)
     @ str ''/'' @ overlay (photos ! 4) (photoPositions ! 4)"
  have "url = ?pre
       @ str ''/l_holiday-assets:white-pixel/c_fill,w_1600,h_100/o_70/fl_layer_apply,g_south,y_20''
       @ str ''/l_text:Pacifico_70:'' @ encodedText
       @ str '',co_rgb:000000/fl_layer_apply,g_south,y_20''
       @ str ''/holiday-assets/collage-bg''"
    unfolding u fullUrl_def segments_def whiteRibbon_value textOverlay_value backgroundId_def
    by (simp add: str_def)
  moreover have "numberToString canvasWidth = str ''1600''"
    by (simp add: canvasWidth_def numberToString_values)
  moreover have "numberToString ribbonHeight = str ''100''"
    by (simp add: ribbonHeight_def numberToString_values)
  ultimately show ?thesis using e by blast
qed

theorem ribbon_and_text_segments_witness:
  "str ''demo'' \<noteq> [] \<and> length examplePhotos = 5
   \<and> fst (buildCollageUrl exampleRuntime (str ''demo'') examplePhotos (str ''Smith''))
        = Inr exampleUrl
   \<and> (\<exists>encodedText pre.
        encodeURIComponent (textContent (str ''Smith'') (clockYear exampleRuntime))
          = Inr encodedText \<and>
        exampleUrl = pre
          @ str ''/l_holiday-assets:white-pixel/c_fill,w_1600,h_100/o_70/fl_layer_apply,g_south,y_20''
          @ str ''/l_text:Pacifico_70:'' @ encodedText
          @ str '',co_rgb:000000/fl_layer_apply,g_south,y_20''
          @ str ''/holiday-assets/collage-bg''
        \<and> numberToString canvasWidth = str ''1600''
        \<and> numberToString ribbonHeight = str ''100'')"
  using ribbon_and_text_segments [OF example_valid example_run] example_valid example_run
  by blast

section \<open>Dependence on the clock\<close>

text \<open>
  C8. Two calls with the same account, photos and label, made where the clock gives the
  same year, return the same string or raise the same error, whatever else differs
  between the two surroundings.
\<close>

theorem same_year_same_result:
  assumes "clockYear rt1 = clockYear rt2"
  shows "fst (buildCollageUrl rt1 cloudName photos familyName) =
         fst (buildCollageUrl rt2 cloudName photos familyName)"
  using assms
  by (simp add: buildCollageUrl_def split: sum.split)

theorem same_year_same_result_witness:
  "clockYear exampleRuntime = clockYear \<lparr>clockYear = 2025, windowDefined = True\<rparr>
   \<and> exampleRuntime \<noteq> \<lparr>clockYear = 2025, windowDefined = True\<rparr>
   \<and> fst (buildCollageUrl exampleRuntime (str ''demo'') examplePhotos (str ''Smith'')) =
     fst (buildCollageUrl \<lparr>clockYear = 2025, windowDefined = True\<rparr>
            (str ''demo'') examplePhotos (str ''Smith''))"
proof -
  have h: "clockYear exampleRuntime = clockYear \<lparr>clockYear = 2025, windowDefined = True\<rparr>"
    by (simp add: exampleRuntime_def)
  have d: "exampleRuntime \<noteq> \<lparr>clockYear = 2025, windowDefined = True\<rparr>"
    by (simp add: exampleRuntime_def)
  from same_year_same_result [OF h] h d show ?thesis by blast
qed

section \<open>The photo overlays\<close>

lemma replaceSlashes_no_slash: "0x2F \<notin> set (replaceSlashes s)"
  by (auto simp: replaceSlashes_def)

lemma replaceSlashes_comma: "0x2C \<in> set (replaceSlashes s) \<longleftrightarrow> 0x2C \<in> set s"
  by (auto simp: replaceSlashes_def)

lemma tokens_first:
  "0x2F \<notin> set a \<Longrightarrow> tokens (a @ 0x2F # b) = splitOn 0x2C a @ tokens b"
  by (simp add: tokens_def splitOn_first)

lemma slotSuffix_count:
  "i < 5 \<Longrightarrow> \<exists>b. slotSuffixes ! i = 0x2F # b \<and> layerApplyCount b = 1"
  apply (drule five_cases)
  apply (elim disjE)
      apply (simp_all add: slotSuffixes_def)
      apply (simp_all add: str_def tokens_def layerApplyCount_def)
  done

lemma splitOn_nonempty: "splitOn sep s \<noteq> []"
  by (induction s) (auto split: list.splits)

lemma splitOn_Cons_other:
  "c \<noteq> sep \<Longrightarrow> splitOn sep (c # cs) = (c # hd (splitOn sep cs)) # tl (splitOn sep cs)"
  using splitOn_nonempty [of sep cs] by (cases "splitOn sep cs") simp_all

text \<open>Replacing slashes leaves the commas, and so the comma-separated parts, in place.\<close>

lemma splitOn_replaceSlashes:
  "splitOn 0x2C (replaceSlashes s) = map replaceSlashes (splitOn 0x2C s)"
proof (induction s)
  case Nil
  show ?case by (simp add: replaceSlashes_def)
next
  case (Cons c cs)
  have ne: "splitOn 0x2C cs \<noteq> []" by (rule splitOn_nonempty)
  from Cons have ih: "splitOn 0x2C (map (\<lambda>c. if c = 0x2F then 0x3A else c) cs) =
      map replaceSlashes (splitOn 0x2C cs)"
    by (simp add: replaceSlashes_def)
  show ?case
  proof (cases "c = 0x2C")
    case True
    with ih show ?thesis by (simp add: replaceSlashes_def)
  next
    case False
    with ih ne show ?thesis
      by (cases "splitOn 0x2C cs") (auto simp: replaceSlashes_def)
  qed
qed

lemma replaceSlashes_eq_layer_apply:
  "replaceSlashes t = str ''fl_layer_apply'' \<longleftrightarrow> t = str ''fl_layer_apply''"
proof
  assume "replaceSlashes t = str ''fl_layer_apply''"
  then show "t = str ''fl_layer_apply''"
    by (auto simp: replaceSlashes_def str_def map_eq_Cons_conv split: if_splits)
next
  assume "t = str ''fl_layer_apply''"
  then show "replaceSlashes t = str ''fl_layer_apply''"
    by (simp add: replaceSlashes_def str_def)
qed

lemma filter_replaceSlashes:
  "filter ((\<lambda>t. t = str ''fl_layer_apply'') \<circ> replaceSlashes) ts =
   filter (\<lambda>t. t = str ''fl_layer_apply'') ts"
  by (rule filter_cong) (simp_all add: replaceSlashes_eq_layer_apply)

text \<open>
  The tokens of the first component \<open>l_<id>\<close>: the parts of the identifier, the first
  of them behind \<open>l_\<close>.
\<close>

lemma overlayId_tokens:
  "splitOn 0x2C (str ''l_'' @ replaceSlashes s) =
     (str ''l_'' @ replaceSlashes (hd (splitOn 0x2C s))) # map replaceSlashes (tl (splitOn 0x2C s))"
proof -
  let ?r = "replaceSlashes s"
  have ne: "splitOn 0x2C s \<noteq> []" by (rule splitOn_nonempty)
  have 1: "splitOn 0x2C (0x5F # ?r) = (0x5F # hd (splitOn 0x2C ?r)) # tl (splitOn 0x2C ?r)"
    by (rule splitOn_Cons_other) simp
  have "splitOn 0x2C (0x6C # 0x5F # ?r) =
      (0x6C # hd (splitOn 0x2C (0x5F # ?r))) # tl (splitOn 0x2C (0x5F # ?r))"
    by (rule splitOn_Cons_other) simp
  then have 2: "splitOn 0x2C (0x6C # 0x5F # ?r) =
      (0x6C # 0x5F # hd (splitOn 0x2C ?r)) # tl (splitOn 0x2C ?r)"
    by (simp only: 1 list.sel)
  have 3: "hd (splitOn 0x2C ?r) = replaceSlashes (hd (splitOn 0x2C s))"
    using ne by (simp add: splitOn_replaceSlashes hd_map)
  have 4: "tl (splitOn 0x2C ?r) = map replaceSlashes (tl (splitOn 0x2C s))"
    by (simp add: splitOn_replaceSlashes map_tl)
  have 5: "str ''l_'' @ t = 0x6C # 0x5F # t" for t :: jsstring
    by (simp add: str_def)
  show ?thesis
    by (simp only: 2 3 4 5)
qed

text \<open>
  The overlay of a slot holds one \<open>fl_layer_apply\<close> token of its own and one more for
  every part of the identifier, after the first, that reads \<open>fl_layer_apply\<close>.
\<close>

lemma layerApplyCount_overlay:
  assumes "i < 5"
  shows "layerApplyCount (overlay photo (photoPositions ! i)) =
     1 + length (filter (\<lambda>t. t = str ''fl_layer_apply'') (tl (splitOn 0x2C (publicId photo))))"
proof -
  let ?a = "str ''l_'' @ replaceSlashes (publicId photo)"
  from slotSuffix_count [OF assms(1)] obtain b where
    b: "slotSuffixes ! i = 0x2F # b" and c: "layerApplyCount b = 1"
    by blast
  have ns: "0x2F \<notin> set ?a"
    using replaceSlashes_no_slash [of "publicId photo"] by (simp add: str_def)
  have na: "str ''l_'' @ replaceSlashes (hd (splitOn 0x2C (publicId photo)))
      \<noteq> str ''fl_layer_apply''"
    by (simp add: str_def)
  have "overlay photo (photoPositions ! i) = ?a @ 0x2F # b"
    using overlay_slot [OF assms(1), of photo] b by simp
  then have "tokens (overlay photo (photoPositions ! i)) = splitOn 0x2C ?a @ tokens b"
    using tokens_first [OF ns, of b] by simp
  with na c show ?thesis
    by (simp add: layerApplyCount_def overlayId_tokens filter_replaceSlashes)
qed

lemma slotSuffix_components:
  "i < 5 \<Longrightarrow> \<exists>b. slotSuffixes ! i = 0x2F # b \<and> layerApplyComponents b = 1"
  apply (drule five_cases)
  apply (elim disjE)
      apply (simp_all add: slotSuffixes_def)
      apply (simp_all add: str_def layerApplyComponents_def)
  done

lemma layerApplyComponents_overlay:
  assumes "i < 5"
  shows "layerApplyComponents (overlay photo (photoPositions ! i)) = 1"
proof -
  let ?a = "str ''l_'' @ replaceSlashes (publicId photo)"
  from slotSuffix_components [OF assms(1)] obtain b where
    b: "slotSuffixes ! i = 0x2F # b" and c: "layerApplyComponents b = 1"
    by blast
  have ns: "0x2F \<notin> set ?a"
    using replaceSlashes_no_slash [of "publicId photo"] by (simp add: str_def)
  have na: "take 1 (splitOn 0x2C ?a) \<noteq> [str ''fl_layer_apply'']"
    by (simp add: overlayId_tokens) (simp add: str_def)
  have "overlay photo (photoPositions ! i) = ?a @ 0x2F # b"
    using overlay_slot [OF assms(1), of photo] b by simp
  then have "splitOn 0x2F (overlay photo (photoPositions ! i)) = ?a # splitOn 0x2F b"
    using splitOn_first [OF ns, of b] by simp
  with na c show ?thesis
    by (simp add: layerApplyComponents_def)
qed

text \<open>
  C5, as stated, fails: identifiers are not checked, and a comma in one starts a new
  token. With the identifier \<open>x,fl_layer_apply\<close> in first place, the first photo overlay
  of the URL returned holds two \<open>fl_layer_apply\<close> tokens.
\<close>

theorem comma_identifier_counterexample:
  "fst (buildCollageUrl exampleRuntime (str ''demo'') commaPhotos (str ''Smith'')) =
     Inr (fullUrl (str ''demo'') (commaOverlay # tl exampleOverlays) exampleEncodedText)
   \<and> layerApplyCount commaOverlay = 2"
proof -
  have v: "str ''demo'' \<noteq> []" "length commaPhotos = 5"
    by (simp_all add: str_def commaPhotos_def)
  have o: "[overlay (commaPhotos ! 0) (photoPositions ! 0),
            overlay (commaPhotos ! 1) (photoPositions ! 1),
            overlay (commaPhotos ! 2) (photoPositions ! 2),
            overlay (commaPhotos ! 3) (photoPositions ! 3),
            overlay (commaPhotos ! 4) (photoPositions ! 4)] = commaOverlay # tl exampleOverlays"
    by (simp add: overlay_slot slotSuffixes_def commaPhotos_def exampleOverlays_def
        commaOverlay_def replaceSlashes_def)
       (simp add: str_def)
  have "fst (buildCollageUrl exampleRuntime (str ''demo'') commaPhotos (str ''Smith'')) =
     Inr (fullUrl (str ''demo'') (commaOverlay # tl exampleOverlays) exampleEncodedText)"
    unfolding buildCollageUrl_valid [OF v] o
    by (simp add: exampleRuntime_def example_encodedText)
  moreover have "layerApplyCount commaOverlay = 2"
    by (simp add: commaOverlay_def str_def tokens_def layerApplyCount_def)
  ultimately show ?thesis by blast
qed

text \<open>
  C5, amended. On a non-empty account and five photos, the URL returned carries five
  photo overlays, and the overlay of photo \<open>i\<close> is \<open>l_\<close> and the identifier with every
  slash replaced by a colon, then \<open>c_fill\<close> with the width and height of slot \<open>i\<close>, then
  \<open>r_25,bo_8px_solid_rgb:FFD700\<close>, then \<open>fl_layer_apply\<close> with the position parameters
  of the slot. Exactly one of its slash-separated components starts with the token
  \<open>fl_layer_apply\<close>, so the five overlays have five such components. The number of
  \<open>fl_layer_apply\<close> tokens in the overlay is one plus the number of comma-separated
  parts of the identifier, after the first, that read \<open>fl_layer_apply\<close>: exactly one
  unless the identifier has such a part. For the photos \<open>a/b, c, d/e/f, g, h\<close> the first
  token of the first overlay is \<open>l_a:b\<close>.
\<close>

theorem photo_overlay_segments:
  assumes "cloudName \<noteq> []" and "length photos = 5"
    and "fst (buildCollageUrl rt cloudName photos familyName) = Inr url"
  shows "(\<exists>encodedText.
       url = fullUrl cloudName
               [overlay (photos ! 0) (photoPositions ! 0), overlay (photos ! 1) (photoPositions ! 1),
                overlay (photos ! 2) (photoPositions ! 2), overlay (photos ! 3) (photoPositions ! 3),
                overlay (photos ! 4) (photoPositions ! 4)]
               encodedText)
     \<and> (\<forall>i<5.
          overlay (photos ! i) (photoPositions ! i) =
            str ''l_'' @ replaceSlashes (publicId (photos ! i))
            @ str ''/c_fill,w_'' @ numberToString (width (photoPositions ! i))
            @ str '',h_'' @ numberToString (height (photoPositions ! i))
            @ str ''/r_25,bo_8px_solid_rgb:FFD700/fl_layer_apply,''
            @ join (str '','') (positionParams (photoPositions ! i))
          \<and> 0x2F \<notin> set (replaceSlashes (publicId (photos ! i)))
          \<and> layerApplyComponents (overlay (photos ! i) (photoPositions ! i)) = 1
          \<and> layerApplyCount (overlay (photos ! i) (photoPositions ! i)) =
              1 + length (filter (\<lambda>t. t = str ''fl_layer_apply'')
                            (tl (splitOn 0x2C (publicId (photos ! i)))))
          \<and> (str ''fl_layer_apply'' \<notin> set (tl (splitOn 0x2C (publicId (photos ! i))))
               \<longrightarrow> layerApplyCount (overlay (photos ! i) (photoPositions ! i)) = 1))
     \<and> sum_list (map layerApplyComponents
          [overlay (photos ! 0) (photoPositions ! 0), overlay (photos ! 1) (photoPositions ! 1),
           overlay (photos ! 2) (photoPositions ! 2), overlay (photos ! 3) (photoPositions ! 3),
           overlay (photos ! 4) (photoPositions ! 4)]) = 5
     \<and> hd (tokens (overlay \<lparr>publicId = str ''a/b''\<rparr> (photoPositions ! 0))) = str ''l_a:b''"
proof -
  have u: "\<exists>encodedText.
       url = fullUrl cloudName
               [overlay (photos ! 0) (photoPositions ! 0), overlay (photos ! 1) (photoPositions ! 1),
                overlay (photos ! 2) (photoPositions ! 2), overlay (photos ! 3) (photoPositions ! 3),
                overlay (photos ! 4) (photoPositions ! 4)]
               encodedText"
    using buildCollageUrl_returns [OF assms] by blast
  have h: "hd (tokens (overlay \<lparr>publicId = str ''a/b''\<rparr> (photoPositions ! 0))) = str ''l_a:b''"
    by (simp add: overlay_slot slotSuffixes_def replaceSlashes_def)
       (simp add: str_def tokens_def)
  have one: "layerApplyCount (overlay photo (photoPositions ! i)) = 1"
    if "i < 5" and "str ''fl_layer_apply'' \<notin> set (tl (splitOn 0x2C (publicId photo)))"
    for i photo
  proof -
    from that(2) have "filter (\<lambda>t. t = str ''fl_layer_apply'')
        (tl (splitOn 0x2C (publicId photo))) = []"
      by (auto simp: filter_empty_conv)
    with layerApplyCount_overlay [OF that(1), of photo] show ?thesis by simp
  qed
  have five: "sum_list (map layerApplyComponents
          [overlay (photos ! 0) (photoPositions ! 0), overlay (photos ! 1) (photoPositions ! 1),
           overlay (photos ! 2) (photoPositions ! 2), overlay (photos ! 3) (photoPositions ! 3),
           overlay (photos ! 4) (photoPositions ! 4)]) = 5"
    using layerApplyComponents_overlay [of 0] layerApplyComponents_overlay [of 1]
      layerApplyComponents_overlay [of 2] layerApplyComponents_overlay [of 3]
      layerApplyComponents_overlay [of 4]
    by simp
  have each: "\<forall>i<5.
          overlay (photos ! i) (photoPositions ! i) =
            str ''l_'' @ replaceSlashes (publicId (photos ! i))
            @ str ''/c_fill,w_'' @ numberToString (width (photoPositions ! i))
            @ str '',h_'' @ numberToString (height (photoPositions ! i))
            @ str ''/r_25,bo_8px_solid_rgb:FFD700/fl_layer_apply,''
            @ join (str '','') (positionParams (photoPositions ! i))
          \<and> 0x2F \<notin> set (replaceSlashes (publicId (photos ! i)))
          \<and> layerApplyComponents (overlay (photos ! i) (photoPositions ! i)) = 1
          \<and> layerApplyCount (overlay (photos ! i) (photoPositions ! i)) =
              1 + length (filter (\<lambda>t. t = str ''fl_layer_apply'')
                            (tl (splitOn 0x2C (publicId (photos ! i)))))
          \<and> (str ''fl_layer_apply'' \<notin> set (tl (splitOn 0x2C (publicId (photos ! i))))
               \<longrightarrow> layerApplyCount (overlay (photos ! i) (photoPositions ! i)) = 1)"
    using overlay_template replaceSlashes_no_slash layerApplyComponents_overlay
      layerApplyCount_overlay one
    by blast
  from u each five h show ?thesis by blast
qed

theorem photo_overlay_segments_witness:
  "str ''demo'' \<noteq> [] \<and> length examplePhotos = 5
   \<and> fst (buildCollageUrl exampleRuntime (str ''demo'') examplePhotos (str ''Smith''))
        = Inr exampleUrl
   \<and> (2::nat) < 5
   \<and> overlay (examplePhotos ! 2) (photoPositions ! 2) =
        str ''l_'' @ replaceSlashes (publicId (examplePhotos ! 2))
        @ str ''/c_fill,w_'' @ numberToString (width (photoPositions ! 2))
        @ str '',h_'' @ numberToString (height (photoPositions ! 2))
        @ str ''/r_25,bo_8px_solid_rgb:FFD700/fl_layer_apply,''
        @ join (str '','') (positionParams (photoPositions ! 2))
   \<and> layerApplyComponents (overlay (examplePhotos ! 2) (photoPositions ! 2)) = 1
   \<and> str ''fl_layer_apply'' \<notin> set (tl (splitOn 0x2C (publicId (examplePhotos ! 2))))
   \<and> layerApplyCount (overlay (examplePhotos ! 2) (photoPositions ! 2)) = 1"
proof -
  have i: "(2::nat) < 5" by simp
  have c: "str ''fl_layer_apply'' \<notin> set (tl (splitOn 0x2C (publicId (examplePhotos ! 2))))"
    by (simp add: examplePhotos_def str_def)
  from photo_overlay_segments [OF example_valid example_run] i c example_valid example_run
  show ?thesis by blast
qed

text \<open>
  C10. On a non-empty account and five photos, every photo overlay of the URL returned
  ends with \<open>fl_layer_apply,g_north_west,x_<x>,y_<y>\<close> for the offsets of its slot: the
  x offset of every slot is at least the margin 50, so the branch that leaves \<open>x_\<close>
  out is never taken.
\<close>

theorem x_offset_always_emitted:
  assumes "cloudName \<noteq> []" and "length photos = 5"
    and "fst (buildCollageUrl rt cloudName photos familyName) = Inr url"
  shows "(\<exists>encodedText.
       url = fullUrl cloudName
               [overlay (photos ! 0) (photoPositions ! 0), overlay (photos ! 1) (photoPositions ! 1),
                overlay (photos ! 2) (photoPositions ! 2), overlay (photos ! 3) (photoPositions ! 3),
                overlay (photos ! 4) (photoPositions ! 4)]
               encodedText)
     \<and> (\<forall>i<5.
          margin \<le> x (photoPositions ! i) \<and> 0 < x (photoPositions ! i)
          \<and> positionParams (photoPositions ! i) =
              [str ''g_north_west'',
               str ''x_'' @ numberToString (x (photoPositions ! i)),
               str ''y_'' @ numberToString (y (photoPositions ! i))]
          \<and> overlay (photos ! i) (photoPositions ! i) =
              str ''l_'' @ replaceSlashes (publicId (photos ! i))
              @ str ''/c_fill,w_'' @ numberToString (width (photoPositions ! i))
              @ str '',h_'' @ numberToString (height (photoPositions ! i))
              @ str ''/r_25,bo_8px_solid_rgb:FFD700/fl_layer_apply,g_north_west''
              @ str '',x_'' @ numberToString (x (photoPositions ! i))
              @ str '',y_'' @ numberToString (y (photoPositions ! i)))"
proof -
  have m: "margin \<le> x (photoPositions ! i)" if "i < 5" for i
    using five_cases [OF that] by (auto simp: photoPositions_values margin_def)
  have o: "overlay photo (photoPositions ! i) =
              str ''l_'' @ replaceSlashes (publicId photo)
              @ str ''/c_fill,w_'' @ numberToString (width (photoPositions ! i))
              @ str '',h_'' @ numberToString (height (photoPositions ! i))
              @ str ''/r_25,bo_8px_solid_rgb:FFD700/fl_layer_apply,g_north_west''
              @ str '',x_'' @ numberToString (x (photoPositions ! i))
              @ str '',y_'' @ numberToString (y (photoPositions ! i))"
    if "i < 5" for i photo
    unfolding overlay_template using positionParams_slot [OF that]
    by (simp add: str_def)
  show ?thesis
    using buildCollageUrl_returns [OF assms] m o positionParams_slot by blast
qed

theorem x_offset_always_emitted_witness:
  "str ''demo'' \<noteq> [] \<and> length examplePhotos = 5
   \<and> fst (buildCollageUrl exampleRuntime (str ''demo'') examplePhotos (str ''Smith''))
        = Inr exampleUrl
   \<and> (0::nat) < 5
   \<and> 0 < x (photoPositions ! 0)
   \<and> positionParams (photoPositions ! 0) =
        [str ''g_north_west'',
         str ''x_'' @ numberToString (x (photoPositions ! 0)),
         str ''y_'' @ numberToString (y (photoPositions ! 0))]"
proof -
  have i: "(0::nat) < 5" by simp
  from x_offset_always_emitted [OF example_valid example_run] i example_valid example_run
  show ?thesis by blast
qed

section \<open>The caption\<close>

text \<open>
  C3. The caption that the source builds does not hold an en dash: its literal has the
  three characters U+00E2, U+20AC, U+201C in that place, the bytes of a UTF-8 en dash
  read in a one-byte encoding. For the label \<open>Smith\<close> in 2025 the text overlay of the
  URL returned carries \<open>%C3%A2%E2%82%AC%E2%80%9C\<close> between the two \<open>%20\<close>, and the
  encoded form of the caption with an en dash does not occur in it.
\<close>

theorem caption_dash_evaluated:
  "fst (buildCollageUrl exampleRuntime (str ''demo'') examplePhotos (str ''Smith''))
     = Inr (fullUrl (str ''demo'') exampleOverlays exampleEncodedText)
   \<and> textOverlay exampleEncodedText =
       str ''l_text:Pacifico_70:Smith%20%C3%A2%E2%82%AC%E2%80%9C%20Holiday%202025,co_rgb:000000/fl_layer_apply,g_south,y_20''
   \<and> encodeURIComponent (str ''Smith '' @ [0x2013] @ str '' Holiday 2025'')
       = Inr (str ''Smith%20%E2%80%93%20Holiday%202025'')
   \<and> \<not> stringIncludes (textOverlay exampleEncodedText)
           (str ''Smith%20%E2%80%93%20Holiday%202025'')"
proof -
  have "fst (buildCollageUrl exampleRuntime (str ''demo'') examplePhotos (str ''Smith''))
     = Inr (fullUrl (str ''demo'') exampleOverlays exampleEncodedText)"
    by (simp only: example_run example_fullUrl)
  moreover have "textOverlay exampleEncodedText =
       str ''l_text:Pacifico_70:Smith%20%C3%A2%E2%82%AC%E2%80%9C%20Holiday%202025,co_rgb:000000/fl_layer_apply,g_south,y_20''"
    by (simp add: textOverlay_value exampleEncodedText_def str_def)
  moreover have "encodeURIComponent (str ''Smith '' @ [0x2013] @ str '' Holiday 2025'')
       = Inr (str ''Smith%20%E2%80%93%20Holiday%202025'')"
    by (simp add: encode_defs str_def)
  moreover have "\<not> stringIncludes (textOverlay exampleEncodedText)
           (str ''Smith%20%E2%80%93%20Holiday%202025'')"
    by (simp add: textOverlay_value exampleEncodedText_def str_def)
  ultimately show ?thesis by blast
qed

end
